theory Spec2Isabelle
  imports Complex_Main "HOL-Library.Multiset" "HOL-Library.Char_ord" "HOL-Library.List_Lexorder"
    "HOL-Library.Product_Lexorder"
begin

section \<open>Data model\<close>

text \<open>
  The analyzer (\<^verbatim>\<open>src/analysis.py\<close>, class \<^verbatim>\<open>AircraftMapAnalyzer\<close>) keeps one pandas
  frame, \<^verbatim>\<open>self.data\<close>, read from the CSV file that \<^verbatim>\<open>scrapper.py\<close> writes. The frame is
  modelled as the list of its rows, in frame order, with the columns the scraper writes
  (\<^verbatim>\<open>save_to_csv\<close> takes the field names of \<^verbatim>\<open>get_aircraft_data\<close>), so \<^verbatim>\<open>row.get(k, d)\<close> always
  finds the key \<^verbatim>\<open>k\<close> and returns the cell.

  A numeric cell is a float64: an empty CSV field is read as NaN. Finite floats are
  modelled by reals; infinities and rounding are not modelled.
\<close>

datatype cell = NaN | Num real

text \<open>
  The \<^verbatim>\<open>timestamp\<close> column holds text after \<^verbatim>\<open>read_csv\<close>. A raw cell is classified by what
  \<^verbatim>\<open>pd.to_datetime\<close> (default \<^verbatim>\<open>errors='raise'\<close>) does with it: an empty field becomes
  \<^verbatim>\<open>NaT\<close>, a date string becomes a timestamp (nanoseconds since the epoch), anything else
  raises.
\<close>

datatype raw_time = Blank | Parsable int | Unparsable

datatype tstamp = NaT | Timestamp int

text \<open>The exceptions of the modelled paths.\<close>

datatype error = ValueError

record 't row =
  timestamp :: 't
  icao24 :: "string option"
  callsign :: "string option"
  latitude :: cell
  longitude :: cell
  baro_altitude :: cell
  geo_altitude :: cell
  velocity :: cell
  true_track :: cell

type_synonym raw_row = "raw_time row"
type_synonym record_row = "tstamp row"

text \<open>An early \<^verbatim>\<open>return\<close> after a printed message, or the value built.\<close>

datatype 'a outcome = NoData string | Done 'a

text \<open>Whether the call returned a value, rather than \<^verbatim>\<open>None\<close> after a message.\<close>

fun returned :: "'a outcome \<Rightarrow> bool" where
  "returned (NoData msg) = False"
| "returned (Done v) = True"

section \<open>Python and pandas primitives\<close>

text \<open>Truth value of a float: only zero is false, NaN is true.\<close>

fun truthy :: "cell \<Rightarrow> bool" where
  "truthy NaN = True"
| "truthy (Num x) = (x \<noteq> 0)"

definition py_or :: "cell \<Rightarrow> cell \<Rightarrow> cell" where
  "py_or a b = (if truthy a then a else b)"

text \<open>\<^verbatim>\<open>a > k\<close> on floats: every comparison with NaN is false.\<close>

fun cell_gt :: "cell \<Rightarrow> real \<Rightarrow> bool" where
  "cell_gt NaN k = False"
| "cell_gt (Num x) k = (x > k)"

fun isna :: "cell \<Rightarrow> bool" where
  "isna NaN = True"
| "isna (Num x) = False"

text \<open>\<^verbatim>\<open>Series.fillna(other)\<close>, cell by cell.\<close>

fun fillna :: "cell \<Rightarrow> cell \<Rightarrow> cell" where
  "fillna NaN b = b"
| "fillna (Num x) b = Num x"

text \<open>\<^verbatim>\<open>Series.dropna()\<close> on a float column: the numbers that are left.\<close>

fun dropna_cells :: "cell list \<Rightarrow> real list" where
  "dropna_cells [] = []"
| "dropna_cells (NaN # cs) = dropna_cells cs"
| "dropna_cells (Num x # cs) = x # dropna_cells cs"

section \<open>Altitude colour (\<^verbatim>\<open>create_static_map\<close>, \<^verbatim>\<open>create_time_animation\<close>)\<close>

text \<open>
  \<^verbatim>\<open>altitude = row.get('baro_altitude', 0) or row.get('geo_altitude', 0) or 0\<close>
\<close>

definition altitude_of :: "'t row \<Rightarrow> cell" where
  "altitude_of r = py_or (py_or (baro_altitude r) (geo_altitude r)) (Num 0)"

definition altitude_color :: "cell \<Rightarrow> string" where
  "altitude_color altitude =
     (if cell_gt altitude 10000 then ''red''
      else if cell_gt altitude 5000 then ''orange''
      else ''green'')"

text \<open>
  \<^verbatim>\<open>self.data['baro_altitude'].fillna(self.data['geo_altitude']).dropna()\<close> of
  \<^verbatim>\<open>generate_statistics\<close>.
\<close>

definition altitudes :: "'t row list \<Rightarrow> real list" where
  "altitudes s = dropna_cells (map (\<lambda>r. fillna (baro_altitude r) (geo_altitude r)) s)"

section \<open>Loading (\<^verbatim>\<open>load_data\<close>)\<close>

text \<open>
  \<^verbatim>\<open>pd.to_datetime(self.data['timestamp'])\<close> converts the column cell by cell and raises
  at the first cell it cannot parse.
\<close>

fun parse_time :: "raw_time \<Rightarrow> error + tstamp" where
  "parse_time Blank = Inr NaT"
| "parse_time (Parsable n) = Inr (Timestamp n)"
| "parse_time Unparsable = Inl ValueError"

fun to_datetime :: "raw_time list \<Rightarrow> error + tstamp list" where
  "to_datetime [] = Inr []"
| "to_datetime (c # cs) =
     (case parse_time c of
        Inl e \<Rightarrow> Inl e
      | Inr t \<Rightarrow> (case to_datetime cs of Inl e \<Rightarrow> Inl e | Inr ts \<Rightarrow> Inr (t # ts)))"

text \<open>\<^verbatim>\<open>self.data['timestamp'] = ...\<close>: the row with its timestamp cell replaced.\<close>

definition set_timestamp :: "'a row \<Rightarrow> 'b \<Rightarrow> 'b row" where
  "set_timestamp r t =
     \<lparr>timestamp = t, icao24 = icao24 r, callsign = callsign r, latitude = latitude r,
      longitude = longitude r, baro_altitude = baro_altitude r,
      geo_altitude = geo_altitude r, velocity = velocity r, true_track = true_track r\<rparr>"

text \<open>\<^verbatim>\<open>self.data.dropna(subset=['latitude', 'longitude'])\<close>\<close>

definition dropna_coords :: "'t row list \<Rightarrow> 't row list" where
  "dropna_coords d = filter (\<lambda>r. \<not> isna (latitude r) \<and> \<not> isna (longitude r)) d"

text \<open>
  \<^verbatim>\<open>load_data\<close> converts the timestamps, drops the rows without coordinates and sorts by
  timestamp; any exception is caught, reported, and leaves the empty frame
  \<^verbatim>\<open>pd.DataFrame()\<close>. The result is the message printed and the frame kept in
  \<^verbatim>\<open>self.data\<close>. The sort is \<^verbatim>\<open>sort_values('timestamp')\<close> of pandas, here the parameter
  \<open>sort_values\<close>.
\<close>

datatype load_message = Loaded nat | ErrorLoading error

definition load_data ::
  "(record_row list \<Rightarrow> record_row list) \<Rightarrow> raw_row list \<Rightarrow> load_message \<times> record_row list" where
  "load_data sort_values raw =
     (case to_datetime (map timestamp raw) of
        Inl e \<Rightarrow> (ErrorLoading e, [])
      | Inr ts \<Rightarrow>
          (let d = map2 set_timestamp raw ts;
               d = dropna_coords d;
               d = sort_values d
           in (Loaded (length d), d)))"

text \<open>
  What pandas documents for \<^verbatim>\<open>sort_values\<close> on one column with the default
  \<^verbatim>\<open>kind='quicksort'\<close> and \<^verbatim>\<open>na_position='last'\<close>: the rows are rearranged into
  non-decreasing order of the key, the rows without key placed last, in frame order. The
  sort is not stable (only \<^verbatim>\<open>mergesort\<close> and \<^verbatim>\<open>stable\<close> are), so nothing is said about
  the order of rows with equal keys. \<open>sort_values_ok xs ys\<close> holds when \<open>ys\<close> is such a
  rearrangement of \<open>xs\<close>; a sort routine is admissible when all its results are.
\<close>

fun ts_le :: "tstamp \<Rightarrow> tstamp \<Rightarrow> bool" where
  "ts_le (Timestamp a) (Timestamp b) = (a \<le> b)"
| "ts_le NaT (Timestamp b) = False"
| "ts_le t NaT = True"

definition no_time :: "record_row \<Rightarrow> bool" where
  "no_time r = (timestamp r = NaT)"

definition sort_values_ok :: "record_row list \<Rightarrow> record_row list \<Rightarrow> bool" where
  "sort_values_ok xs ys \<longleftrightarrow>
     mset ys = mset xs \<and> sorted_wrt ts_le (map timestamp ys)
     \<and> filter no_time ys = filter no_time xs"

definition sorter_ok :: "(record_row list \<Rightarrow> record_row list) \<Rightarrow> bool" where
  "sorter_ok srt \<longleftrightarrow> (\<forall>xs. sort_values_ok xs (srt xs))"

text \<open>
  An admissible routine, for the examples: it keeps rows of equal timestamp in frame order.
\<close>

fun nanos :: "tstamp \<Rightarrow> int" where
  "nanos NaT = 0"
| "nanos (Timestamp n) = n"

definition sort_values_stable :: "record_row list \<Rightarrow> record_row list" where
  "sort_values_stable xs =
     sort_key (\<lambda>r. nanos (timestamp r)) (filter (\<lambda>r. \<not> no_time r) xs) @ filter no_time xs"

section \<open>Map centre and coordinates\<close>

text \<open>\<^verbatim>\<open>Series.mean()\<close> skips NaN; the mean of no number is NaN.\<close>

definition mean :: "real list \<Rightarrow> cell" where
  "mean xs = (if xs = [] then NaN else Num (sum_list xs / real (length xs)))"

definition center :: "'t row list \<Rightarrow> cell \<times> cell" where
  "center s = (mean (dropna_cells (map latitude s)), mean (dropna_cells (map longitude s)))"

definition coords :: "'t row \<Rightarrow> cell \<times> cell" where
  "coords r = (latitude r, longitude r)"

section \<open>Static map (\<^verbatim>\<open>create_static_map\<close>)\<close>

record marker =
  marker_location :: "cell \<times> cell"
  marker_color :: string
  marker_altitude :: cell
  marker_row :: record_row

record static_map =
  static_location :: "cell \<times> cell"
  static_markers :: "marker list"

definition static_marker :: "record_row \<Rightarrow> marker" where
  "static_marker r =
     (let altitude = altitude_of r
      in \<lparr>marker_location = (latitude r, longitude r), marker_color = altitude_color altitude,
          marker_altitude = altitude, marker_row = r\<rparr>)"

definition create_static_map :: "record_row list \<Rightarrow> static_map outcome" where
  "create_static_map s =
     (if s = [] then NoData ''No data to plot''
      else Done \<lparr>static_location = center s, static_markers = map static_marker s\<rparr>)"

section \<open>Time intervals and the animation period\<close>

text \<open>
  \<^verbatim>\<open>self.data['timestamp'].diff().dropna()\<close>: the first difference is missing, and so is
  a difference with \<^verbatim>\<open>NaT\<close> on either side. Differences are in nanoseconds.
\<close>

fun minus_time :: "tstamp \<Rightarrow> tstamp \<Rightarrow> int option" where
  "minus_time (Timestamp a) (Timestamp b) = Some (a - b)"
| "minus_time NaT t = None"
| "minus_time t NaT = None"

fun diff_from :: "tstamp \<Rightarrow> tstamp list \<Rightarrow> int option list" where
  "diff_from p [] = []"
| "diff_from p (t # ts) = minus_time t p # diff_from t ts"

fun diff :: "tstamp list \<Rightarrow> int option list" where
  "diff [] = []"
| "diff (t # ts) = None # diff_from t ts"

fun dropna_deltas :: "int option list \<Rightarrow> int list" where
  "dropna_deltas [] = []"
| "dropna_deltas (None # ds) = dropna_deltas ds"
| "dropna_deltas (Some d # ds) = d # dropna_deltas ds"

definition time_diff :: "record_row list \<Rightarrow> int list" where
  "time_diff s = dropna_deltas (diff (map timestamp s))"

text \<open>
  \<^verbatim>\<open>Series.median()\<close> of time differences: the middle one, or the mean of the two middle
  ones cut to whole nanoseconds (towards zero); \<^verbatim>\<open>NaT\<close> when there is none.
\<close>

definition halve :: "int \<Rightarrow> int" where
  "halve a = (if 0 \<le> a then a div 2 else - ((- a) div 2))"

definition median :: "int list \<Rightarrow> int option" where
  "median xs =
     (let ys = sort xs; n = length ys
      in if n = 0 then None
         else if odd n then Some (ys ! (n div 2))
         else Some (halve (ys ! (n div 2 - 1) + ys ! (n div 2))))"

definition seconds :: "int \<Rightarrow> real" where
  "seconds d = real_of_int d / 1000000000"

fun total_seconds :: "int option \<Rightarrow> cell" where
  "total_seconds None = NaN"
| "total_seconds (Some d) = Num (seconds d)"

definition avg_interval :: "record_row list \<Rightarrow> cell" where
  "avg_interval s =
     (let deltas = time_diff s
      in if deltas \<noteq> [] then total_seconds (median deltas) else Num 60)"

fun cell_lt :: "cell \<Rightarrow> real \<Rightarrow> bool" where
  "cell_lt NaN k = False"
| "cell_lt (Num x) k = (x < k)"

definition period_of :: "cell \<Rightarrow> string" where
  "period_of interval =
     (if cell_lt interval 30 then ''PT10S''
      else if cell_lt interval 120 then ''PT30S''
      else ''PT1M'')"

section \<open>Animation (\<^verbatim>\<open>create_time_animation\<close>)\<close>

text \<open>
  \<^verbatim>\<open>self.data.sort_values(['timestamp', 'icao24'])\<close>: a sort on several columns is a stable
  lexicographic sort, missing values last in each column.
\<close>

fun time_key :: "tstamp \<Rightarrow> bool \<times> int" where
  "time_key NaT = (True, 0)"
| "time_key (Timestamp n) = (False, n)"

fun id_key :: "string option \<Rightarrow> bool \<times> string" where
  "id_key None = (True, [])"
| "id_key (Some a) = (False, a)"

definition sort_by_time_and_id :: "record_row list \<Rightarrow> record_row list" where
  "sort_by_time_and_id s = sort_key (\<lambda>r. (time_key (timestamp r), id_key (icao24 r))) s"

text \<open>
  \<^verbatim>\<open>strftime('%Y-%m-%dT%H:%M:%S')\<close> keeps whole seconds; on \<^verbatim>\<open>NaT\<close> it raises. The
  calendar text is not modelled: the feature carries the second.
\<close>

fun strftime :: "tstamp \<Rightarrow> error + int" where
  "strftime NaT = Inl ValueError"
| "strftime (Timestamp n) = Inr (n div 1000000000)"

record feature =
  feature_coordinates :: "cell \<times> cell"
  feature_time :: int
  feature_color :: string
  feature_altitude :: cell
  feature_row :: record_row

fun features_of :: "record_row list \<Rightarrow> error + feature list" where
  "features_of [] = Inr []"
| "features_of (r # rs) =
     (let altitude = altitude_of r; color = altitude_color altitude
      in case strftime (timestamp r) of
           Inl e \<Rightarrow> Inl e
         | Inr time_str \<Rightarrow>
             (case features_of rs of
                Inl e \<Rightarrow> Inl e
              | Inr features \<Rightarrow>
                  Inr (\<lparr>feature_coordinates = (longitude r, latitude r), feature_time = time_str,
                        feature_color = color, feature_altitude = altitude, feature_row = r\<rparr>
                       # features)))"

record animation =
  animation_location :: "cell \<times> cell"
  animation_features :: "feature list"
  animation_period :: string

definition create_time_animation :: "record_row list \<Rightarrow> error + animation outcome" where
  "create_time_animation s =
     (if s = [] then Inr (NoData ''No data to plot'')
      else
        (let interval = avg_interval s;
             sorted_data = sort_by_time_and_id s
         in case features_of sorted_data of
              Inl e \<Rightarrow> Inl e
            | Inr features \<Rightarrow>
                Inr (Done \<lparr>animation_location = center s, animation_features = features,
                           animation_period = period_of interval\<rparr>)))"

section \<open>Flight paths (\<^verbatim>\<open>create_flight_paths\<close>)\<close>

text \<open>
  \<^verbatim>\<open>self.data.groupby('icao24')\<close>: the groups in ascending key order (\<^verbatim>\<open>sort=True\<close> is the
  default), rows without a key in no group, each group's rows in frame order.
\<close>

fun dropna_values :: "'a option list \<Rightarrow> 'a list" where
  "dropna_values [] = []"
| "dropna_values (None # vs) = dropna_values vs"
| "dropna_values (Some v # vs) = v # dropna_values vs"

definition groupby_icao24 :: "record_row list \<Rightarrow> (string \<times> record_row list) list" where
  "groupby_icao24 s =
     map (\<lambda>k. (k, filter (\<lambda>r. icao24 r = Some k) s)) (sort (remdups (dropna_values (map icao24 s))))"

text \<open>
  \<^verbatim>\<open>group.drop_duplicates(subset=['latitude', 'longitude'], keep='first')\<close>: a row is
  dropped when an earlier row of the group, anywhere before it, has its coordinates.
\<close>

fun drop_duplicates_seen :: "(cell \<times> cell) list \<Rightarrow> 't row list \<Rightarrow> 't row list" where
  "drop_duplicates_seen seen [] = []"
| "drop_duplicates_seen seen (r # rs) =
     (if coords r \<in> set seen then drop_duplicates_seen seen rs
      else r # drop_duplicates_seen (coords r # seen) rs)"

definition drop_duplicates :: "'t row list \<Rightarrow> 't row list" where
  "drop_duplicates g = drop_duplicates_seen [] g"

definition colors :: "string list" where
  "colors = [''red'', ''blue'', ''green'', ''purple'', ''orange'', ''darkred'',
     ''lightred'', ''beige'', ''darkblue'', ''darkgreen'', ''cadetblue'',
     ''darkpurple'', ''pink'', ''lightblue'', ''lightgreen'',
     ''gray'', ''black'', ''lightgray'']"

text \<open>
  A drawn path: the aircraft, its colour and the rows of its deduplicated group. The poly
  line, the start and end markers and the circle markers in between are read off the rows.
\<close>

record flight_path =
  path_aircraft :: string
  path_color :: string
  path_rows :: "record_row list"

definition path_coordinates :: "flight_path \<Rightarrow> (cell \<times> cell) list" where
  "path_coordinates p = map coords (path_rows p)"

definition path_times :: "flight_path \<Rightarrow> tstamp list" where
  "path_times p = map timestamp (path_rows p)"

definition path_intermediate :: "flight_path \<Rightarrow> (nat \<times> record_row) list" where
  "path_intermediate p =
     filter (\<lambda>(i, r). 0 < i \<and> i < length (path_rows p) - 1) (enumerate 0 (path_rows p))"

fun paths_loop ::
  "(record_row list \<Rightarrow> record_row list) \<Rightarrow> int \<Rightarrow> nat \<Rightarrow> (string \<times> record_row list) list
   \<Rightarrow> flight_path list" where
  "paths_loop sort_values min_points color_idx [] = []"
| "paths_loop sort_values min_points color_idx ((aircraft_id, grp) # rest) =
     (let grp = sort_values grp
      in if int (length grp) \<ge> min_points then
           (let grp = drop_duplicates grp
            in if int (length grp) \<ge> min_points then
                 (let coordinates = map coords grp
                  in if int (length coordinates) \<ge> min_points then
                       \<lparr>path_aircraft = aircraft_id,
                        path_color = colors ! (color_idx mod length colors),
                        path_rows = grp\<rparr>
                       # paths_loop sort_values min_points (color_idx + 1) rest
                     else paths_loop sort_values min_points color_idx rest)
               else paths_loop sort_values min_points color_idx rest)
         else paths_loop sort_values min_points color_idx rest)"

record flight_paths =
  paths_location :: "cell \<times> cell"
  paths_drawn :: "flight_path list"
  paths_created :: nat

definition create_flight_paths ::
  "(record_row list \<Rightarrow> record_row list) \<Rightarrow> int \<Rightarrow> record_row list \<Rightarrow> flight_paths outcome" where
  "create_flight_paths sort_values min_points s =
     (if s = [] then NoData ''No data to plot''
      else
        (let paths = paths_loop sort_values min_points 0 (groupby_icao24 s)
         in Done \<lparr>paths_location = center s, paths_drawn = paths,
                  paths_created = length paths\<rparr>))"

section \<open>Heat map (\<^verbatim>\<open>create_heatmap\<close>)\<close>

record heatmap =
  heat_location :: "cell \<times> cell"
  heat_data :: "(cell \<times> cell) list"

definition create_heatmap :: "record_row list \<Rightarrow> heatmap outcome" where
  "create_heatmap s =
     (if s = [] then NoData ''No data to plot''
      else Done \<lparr>heat_location = center s, heat_data = map coords s\<rparr>)"

section \<open>Simple plotter (\<^verbatim>\<open>analysis_simple.py\<close>, \<^verbatim>\<open>create_map\<close>)\<close>

text \<open>
  \<^verbatim>\<open>SimpleAircraftPlotter.create_map\<close> visits the same groups, gives every group the next
  colour of its own palette, draws a line through a group of more than one row, and marks
  each row: the first and the last of a longer group with a start and an end marker, the
  others with a circle in the group's colour.
\<close>

definition simple_colors :: "string list" where
  "simple_colors = [''red'', ''blue'', ''green'', ''purple'', ''orange'', ''darkred'',
     ''lightred'', ''darkblue'', ''darkgreen'', ''cadetblue'',
     ''darkpurple'', ''pink'', ''lightblue'', ''lightgreen'',
     ''gray'', ''black'', ''brown'']"

datatype point_kind = StartMarker | EndMarker | CircleMarker string

record track_point =
  point_kind :: point_kind
  point_location :: "cell \<times> cell"
  point_altitude :: cell
  point_row :: record_row

record track =
  track_aircraft :: string
  track_color :: string
  track_line :: "(cell \<times> cell) list option"
  track_points :: "track_point list"

definition track_point_of :: "string \<Rightarrow> nat \<Rightarrow> nat \<times> record_row \<Rightarrow> track_point" where
  "track_point_of color len ir =
     (case ir of (i, r) \<Rightarrow>
        \<lparr>point_kind =
           (if i = 0 \<and> len > 1 then StartMarker
            else if i = len - 1 \<and> len > 1 then EndMarker
            else CircleMarker color),
         point_location = (latitude r, longitude r),
         point_altitude = altitude_of r,
         point_row = r\<rparr>)"

fun map_loop ::
  "(record_row list \<Rightarrow> record_row list) \<Rightarrow> nat \<Rightarrow> (string \<times> record_row list) list
   \<Rightarrow> track list" where
  "map_loop sort_values color_idx [] = []"
| "map_loop sort_values color_idx ((aircraft_id, grp) # rest) =
     (let grp = sort_values grp;
          color = simple_colors ! (color_idx mod length simple_colors)
      in \<lparr>track_aircraft = aircraft_id, track_color = color,
          track_line = (if length grp > 1 then Some (map coords grp) else None),
          track_points = map (track_point_of color (length grp)) (enumerate 0 grp)\<rparr>
         # map_loop sort_values (color_idx + 1) rest)"

record simple_map =
  simple_location :: "cell \<times> cell"
  simple_tracks :: "track list"

definition create_map ::
  "(record_row list \<Rightarrow> record_row list) \<Rightarrow> record_row list \<Rightarrow> simple_map outcome" where
  "create_map sort_values s =
     (if s = [] then NoData ''No data to plot''
      else Done \<lparr>simple_location = center s,
                 simple_tracks = map_loop sort_values 0 (groupby_icao24 s)\<rparr>)"

section \<open>Statistics (\<^verbatim>\<open>generate_statistics\<close>)\<close>

text \<open>
  \<^verbatim>\<open>Series.value_counts()\<close>: each value with the number of its occurrences, most frequent
  first. The order among equal counts is left to the library's sort, a parameter here.
\<close>

definition unique :: "'a list \<Rightarrow> 'a list" where
  "unique vs = rev (remdups (rev vs))"

definition value_counts ::
  "((string \<times> nat) list \<Rightarrow> (string \<times> nat) list) \<Rightarrow> string list \<Rightarrow> (string \<times> nat) list" where
  "value_counts sort_counts vs = sort_counts (map (\<lambda>v. (v, count_list vs v)) (unique vs))"

definition sort_counts_ok :: "(string \<times> nat) list \<Rightarrow> (string \<times> nat) list \<Rightarrow> bool" where
  "sort_counts_ok xs ys \<longleftrightarrow> mset ys = mset xs \<and> sorted_wrt (\<lambda>a b. snd b \<le> snd a) ys"

definition counts_sorter_ok :: "((string \<times> nat) list \<Rightarrow> (string \<times> nat) list) \<Rightarrow> bool" where
  "counts_sorter_ok srt \<longleftrightarrow> (\<forall>xs. sort_counts_ok xs (srt xs))"

definition sort_counts_stable :: "(string \<times> nat) list \<Rightarrow> (string \<times> nat) list" where
  "sort_counts_stable xs = sort_key (\<lambda>(v, n). - int n) xs"

text \<open>\<^verbatim>\<open>str.strip()\<close>: white space off both ends.\<close>

definition is_space :: "char \<Rightarrow> bool" where
  "is_space c \<longleftrightarrow>
     c \<in> set [CHR 0x09, CHR 0x0A, CHR 0x0B, CHR 0x0C, CHR 0x0D, CHR 0x1C, CHR 0x1D, CHR 0x1E,
              CHR 0x1F, CHR 0x20, CHR 0x85, CHR 0xA0]"

definition strip :: "string \<Rightarrow> string" where
  "strip s = rev (dropWhile is_space (rev (dropWhile is_space s)))"

fun maximum :: "'a::linorder list \<Rightarrow> 'a option" where
  "maximum [] = None"
| "maximum (x # xs) = Some (fold max xs x)"

fun minimum :: "'a::linorder list \<Rightarrow> 'a option" where
  "minimum [] = None"
| "minimum (x # xs) = Some (fold min xs x)"

fun dropna_times :: "tstamp list \<Rightarrow> int list" where
  "dropna_times [] = []"
| "dropna_times (NaT # ts) = dropna_times ts"
| "dropna_times (Timestamp n # ts) = n # dropna_times ts"

text \<open>\<^verbatim>\<open>self.data['timestamp'].max() - self.data['timestamp'].min()\<close>\<close>

definition time_span :: "record_row list \<Rightarrow> int option" where
  "time_span s =
     (let ts = dropna_times (map timestamp s)
      in case (maximum ts, minimum ts) of
           (Some hi, Some lo) \<Rightarrow> Some (hi - lo)
         | _ \<Rightarrow> None)"

definition percent :: "nat \<Rightarrow> nat \<Rightarrow> real" where
  "percent n len = real n / real len * 100"

record summary =
  summary_mean :: cell
  summary_max :: "real option"
  summary_min :: "real option"
  summary_count :: nat
  summary_percent :: real

text \<open>The block printed for a column of numbers when it is not empty.\<close>

definition summarize :: "real list \<Rightarrow> nat \<Rightarrow> summary option" where
  "summarize xs len =
     (if xs \<noteq> [] then
        Some \<lparr>summary_mean = mean xs, summary_max = maximum xs, summary_min = minimum xs,
              summary_count = length xs, summary_percent = percent (length xs) len\<rparr>
      else None)"

definition speeds :: "'t row list \<Rightarrow> real list" where
  "speeds s = dropna_cells (map velocity s)"

text \<open>
  \<^verbatim>\<open>self.data['callsign'].dropna().value_counts().head(10)\<close>, and the names as printed,
  \<^verbatim>\<open>callsign.strip()\<close>.
\<close>

definition callsigns ::
  "((string \<times> nat) list \<Rightarrow> (string \<times> nat) list) \<Rightarrow> 't row list \<Rightarrow> (string \<times> nat) list" where
  "callsigns sort_counts s = take 10 (value_counts sort_counts (dropna_values (map callsign s)))"

definition top_callsigns ::
  "((string \<times> nat) list \<Rightarrow> (string \<times> nat) list) \<Rightarrow> 't row list \<Rightarrow> (string \<times> nat) list" where
  "top_callsigns sort_counts s = map (\<lambda>(c, n). (strip c, n)) (callsigns sort_counts s)"

definition missing_callsign :: "'t row list \<Rightarrow> nat" where
  "missing_callsign s = length (filter (\<lambda>c. c = None) (map callsign s))"

text \<open>
  \<^verbatim>\<open>self.data['baro_altitude'].isna().sum() + self.data['geo_altitude'].isna().sum()\<close>
\<close>

definition missing_altitude :: "'t row list \<Rightarrow> nat" where
  "missing_altitude s =
     length (filter isna (map baro_altitude s)) + length (filter isna (map geo_altitude s))"

definition missing_speed :: "'t row list \<Rightarrow> nat" where
  "missing_speed s = length (filter isna (map velocity s))"

record report =
  report_total :: nat
  report_unique_aircraft :: nat
  report_time_span :: "int option"
  report_median_interval :: "cell option"
  report_over_1 :: nat
  report_over_5 :: nat
  report_over_10 :: nat
  report_max_points :: "nat option"
  report_altitude :: "summary option"
  report_speed :: "summary option"
  report_latitude_range :: "real option \<times> real option"
  report_longitude_range :: "real option \<times> real option"
  report_top_callsigns :: "(string \<times> nat) list"
  report_missing_callsign :: "nat \<times> real"
  report_missing_altitude :: "nat \<times> real"
  report_missing_speed :: "nat \<times> real"

definition generate_statistics ::
  "((string \<times> nat) list \<Rightarrow> (string \<times> nat) list) \<Rightarrow> record_row list \<Rightarrow> report outcome" where
  "generate_statistics sort_counts s =
     (if s = [] then NoData ''No data to analyze''
      else
        (let deltas = time_diff s;
             aircraft_counts = map snd (value_counts sort_counts (dropna_values (map icao24 s)));
             lats = dropna_cells (map latitude s);
             lons = dropna_cells (map longitude s)
         in Done
           \<lparr>report_total = length s,
            report_unique_aircraft = length (unique (dropna_values (map icao24 s))),
            report_time_span = time_span s,
            report_median_interval =
              (if deltas \<noteq> [] then Some (total_seconds (median deltas)) else None),
            report_over_1 = length (filter (\<lambda>c. c > 1) aircraft_counts),
            report_over_5 = length (filter (\<lambda>c. c > 5) aircraft_counts),
            report_over_10 = length (filter (\<lambda>c. c > 10) aircraft_counts),
            report_max_points = maximum aircraft_counts,
            report_altitude = summarize (altitudes s) (length s),
            report_speed = summarize (speeds s) (length s),
            report_latitude_range = (minimum lats, maximum lats),
            report_longitude_range = (minimum lons, maximum lons),
            report_top_callsigns = top_callsigns sort_counts s,
            report_missing_callsign = (missing_callsign s, percent (missing_callsign s) (length s)),
            report_missing_altitude = (missing_altitude s, percent (missing_altitude s) (length s)),
            report_missing_speed = (missing_speed s, percent (missing_speed s) (length s))\<rparr>))"

section \<open>Sample records\<close>

definition sample :: record_row where
  "sample = \<lparr>timestamp = Timestamp 0, icao24 = Some ''a1b2c3'', callsign = Some ''UAL123  '',
     latitude = Num 39, longitude = Num (-105), baro_altitude = Num 11000,
     geo_altitude = Num 11200, velocity = Num 230, true_track = Num 90\<rparr>"

definition geo_only :: record_row where
  "geo_only = sample\<lparr>baro_altitude := NaN, geo_altitude := Num 12000\<rparr>"

definition good_raw :: raw_row where
  "good_raw = set_timestamp sample (Parsable 0)"

definition bad_time_raw :: raw_row where
  "bad_time_raw = set_timestamp sample Unparsable"

definition later :: record_row where
  "later = sample\<lparr>timestamp := Timestamp 12000000000, latitude := Num 39.5\<rparr>"

definition other :: record_row where
  "other = sample\<lparr>icao24 := Some ''d4e5f6'', callsign := Some ''DAL88   ''\<rparr>"

definition far :: record_row where
  "far = sample\<lparr>latitude := Num 95, longitude := Num 200\<rparr>"

definition nowhere :: record_row where
  "nowhere = sample\<lparr>latitude := NaN\<rparr>"

definition blind :: record_row where
  "blind = sample\<lparr>baro_altitude := NaN, geo_altitude := NaN\<rparr>"

definition blank :: record_row where
  "blank = sample\<lparr>callsign := Some ''        ''\<rparr>"

definition unnamed :: record_row where
  "unnamed = sample\<lparr>callsign := None\<rparr>"

definition cadence :: "int list \<Rightarrow> record_row list" where
  "cadence ts = map (\<lambda>t. sample\<lparr>timestamp := Timestamp (t * 1000000000)\<rparr>) ts"

definition revisit :: record_row where
  "revisit = sample\<lparr>timestamp := Timestamp 24000000000\<rparr>"

definition other_later :: record_row where
  "other_later = other\<lparr>timestamp := Timestamp 12000000000, longitude := Num (-104)\<rparr>"

definition two_aircraft :: "record_row list" where
  "two_aircraft = [other, sample, later, other_later]"

definition two_aircraft_shuffled :: "record_row list" where
  "two_aircraft_shuffled = [sample, other, other_later, later]"

definition two_paths :: "flight_path list" where
  "two_paths =
     [\<lparr>path_aircraft = ''a1b2c3'', path_color = ''red'', path_rows = [sample, later]\<rparr>,
      \<lparr>path_aircraft = ''d4e5f6'', path_color = ''blue'', path_rows = [other, other_later]\<rparr>]"

section \<open>Altitude class\<close>

lemma altitude_of_number:
  "baro_altitude r = Num b \<Longrightarrow> geo_altitude r = Num g \<Longrightarrow>
   altitude_of r = Num (if b \<noteq> 0 then b else g)"
  by (simp add: altitude_of_def py_or_def)

lemma altitude_of_nan: "baro_altitude r = NaN \<Longrightarrow> altitude_of r = NaN"
  by (simp add: altitude_of_def py_or_def)

text \<open>
  C1. The claim: the class follows the barometric altitude when it is present, else the
  geometric altitude when that is present, else 0; in particular a record without
  barometric altitude but with geometric altitude is classified by the geometric altitude.
  In the marker loops of \<^verbatim>\<open>create_static_map\<close> and \<^verbatim>\<open>create_time_animation\<close> the missing
  barometric altitude is the float NaN, which is true in a Boolean context, so the \<^verbatim>\<open>or\<close>
  chain stops at it: the record with no barometric altitude and a geometric altitude of
  12000 ft gets altitude NaN and the colour of the lowest class, where the claim gives the
  highest. The statistics path of the same class fills the same record's altitude with
  12000.
\<close>

theorem altitude_fallback_skipped_on_nan:
  "baro_altitude geo_only = NaN \<and> geo_altitude geo_only = Num 12000
   \<and> altitude_of geo_only = NaN
   \<and> altitude_color (altitude_of geo_only) = ''green''
   \<and> altitude_color (geo_altitude geo_only) = ''red''
   \<and> (case create_static_map [geo_only] of
          Done m \<Rightarrow> map marker_color (static_markers m) = [''green'']
        | NoData msg \<Rightarrow> False)
   \<and> (case create_time_animation [geo_only] of
          Inr (Done a) \<Rightarrow> map feature_color (animation_features a) = [''green'']
        | _ \<Rightarrow> False)
   \<and> altitudes [geo_only] = [12000]"
  by (simp add: geo_only_def sample_def altitude_of_def py_or_def altitude_color_def
      altitudes_def create_static_map_def static_marker_def create_time_animation_def
      sort_by_time_and_id_def Let_def)

section \<open>The loaded store\<close>

subsection \<open>The sort routine of the examples meets the contract\<close>

lemma sorted_nanos_ts_le:
  "\<forall>r\<in>set ys. \<not> no_time r \<Longrightarrow> sorted (map (\<lambda>r. nanos (timestamp r)) ys) \<Longrightarrow>
   sorted_wrt ts_le (map timestamp ys)"
proof (induction ys)
  case Nil
  then show ?case by simp
next
  case (Cons y ys)
  have "ts_le (timestamp y) (timestamp z)" if "z \<in> set ys" for z
  proof -
    from Cons.prems that have "nanos (timestamp y) \<le> nanos (timestamp z)" by auto
    moreover from Cons.prems that have "timestamp y \<noteq> NaT" "timestamp z \<noteq> NaT"
      by (auto simp: no_time_def)
    ultimately show ?thesis by (cases "timestamp y"; cases "timestamp z") auto
  qed
  with Cons show ?case by auto
qed

lemma sorted_wrt_no_time: "\<forall>r\<in>set ys. no_time r \<Longrightarrow> sorted_wrt ts_le (map timestamp ys)"
  by (induction ys) (auto simp: no_time_def)

lemma timed_then_untimed_ok:
  assumes "mset ys = mset (filter (\<lambda>r. \<not> no_time r) xs)"
    and "sorted (map (\<lambda>r. nanos (timestamp r)) ys)"
  shows "sort_values_ok xs (ys @ filter no_time xs)"
proof -
  have set_ys: "set ys = {r \<in> set xs. \<not> no_time r}"
    using assms(1) by (metis mset_eq_setD set_filter)
  have "sorted_wrt ts_le (map timestamp ys)"
    using set_ys assms(2) by (intro sorted_nanos_ts_le) auto
  moreover have "sorted_wrt ts_le (map timestamp (filter no_time xs))"
    by (rule sorted_wrt_no_time) simp
  moreover have "ts_le (timestamp a) (timestamp b)" if "b \<in> set (filter no_time xs)" for a b :: record_row
    using that by (simp add: no_time_def)
  ultimately have "sorted_wrt ts_le (map timestamp (ys @ filter no_time xs))"
    by (simp add: sorted_wrt_append)
  moreover have "filter no_time ys = []"
    using set_ys by (auto simp: filter_empty_conv)
  moreover have "mset (ys @ filter no_time xs) = mset xs"
    using assms(1) by (simp add: union_commute)
  ultimately show ?thesis by (simp add: sort_values_ok_def)
qed

lemma sorter_ok_stable: "sorter_ok sort_values_stable"
  unfolding sorter_ok_def sort_values_stable_def
  by (intro allI timed_then_untimed_ok) simp_all

subsection \<open>Unparsable timestamps\<close>

lemma to_datetime_raises: "Unparsable \<in> set cs \<Longrightarrow> to_datetime cs = Inl ValueError"
proof (induction cs)
  case Nil
  then show ?case by simp
next
  case (Cons c cs)
  show ?case
  proof (cases c)
    case Unparsable
    then show ?thesis by simp
  next
    case Blank
    with Cons show ?thesis by simp
  next
    case (Parsable n)
    with Cons show ?thesis by simp
  qed
qed

lemma to_datetime_length: "to_datetime cs = Inr ts \<Longrightarrow> length ts = length cs"
  by (induction cs arbitrary: ts) (auto split: sum.splits)

text \<open>
  C2, as the code has it. The claim: a row whose timestamp cannot be parsed is dropped alone
  and every other valid row is retained. \<^verbatim>\<open>pd.to_datetime\<close> converts the whole column and
  raises on the first text it cannot parse; \<^verbatim>\<open>load_data\<close> catches the exception and
  replaces the frame by an empty one. So one unparsable timestamp leaves a store with no
  row at all, whatever the sort routine; the load itself does not raise.
\<close>

theorem load_empty_on_unparsable_timestamp:
  "Unparsable \<in> set (map timestamp raw) \<Longrightarrow> load_data srt raw = (ErrorLoading ValueError, [])"
  by (simp add: load_data_def to_datetime_raises del: set_map)

theorem load_empty_on_unparsable_timestamp_witness:
  "Unparsable \<in> set (map timestamp [bad_time_raw, good_raw, good_raw])
   \<and> load_data sort_values_stable [bad_time_raw, good_raw, good_raw]
       = (ErrorLoading ValueError, [])"
  using load_empty_on_unparsable_timestamp
    [of "[bad_time_raw, good_raw, good_raw]" sort_values_stable]
  by (simp add: bad_time_raw_def set_timestamp_def)

text \<open>
  C2 as stated fails: a valid row that loads on its own is lost when a row with an
  unparsable timestamp follows it.
\<close>

theorem unparsable_timestamp_drops_valid_row:
  "load_data sort_values_stable [good_raw] = (Loaded 1, [sample])
   \<and> load_data sort_values_stable [good_raw, bad_time_raw] = (ErrorLoading ValueError, [])"
  by (simp add: load_data_def good_raw_def bad_time_raw_def set_timestamp_def sample_def
      dropna_coords_def sort_values_stable_def no_time_def)

subsection \<open>Coordinates\<close>

text \<open>
  C3, as the code has it. The claim: rows with a missing, non-finite or out-of-range
  latitude or longitude are excluded, the others retained. \<^verbatim>\<open>dropna\<close> only removes the
  rows whose latitude or longitude is missing; nothing compares a coordinate with \<open>\<plusminus>90\<close> or
  \<open>\<plusminus>180\<close>. When every timestamp converts, the store holds exactly the rows with both
  coordinates present, each as often as in the input.
\<close>

theorem load_keeps_rows_with_coordinates:
  assumes "sorter_ok srt" and "to_datetime (map timestamp raw) = Inr ts"
  shows "mset (snd (load_data srt raw))
         = mset (filter (\<lambda>r. latitude r \<noteq> NaN \<and> longitude r \<noteq> NaN) (map2 set_timestamp raw ts))"
proof -
  have "isna c \<longleftrightarrow> c = NaN" for c by (cases c) simp_all
  then have "dropna_coords d = filter (\<lambda>r. latitude r \<noteq> NaN \<and> longitude r \<noteq> NaN) d"
    for d :: "record_row list"
    by (simp add: dropna_coords_def)
  moreover have "mset (srt d) = mset d" for d
    using assms(1) by (simp add: sorter_ok_def sort_values_ok_def)
  ultimately show ?thesis using assms(2) by (simp add: load_data_def Let_def)
qed

theorem load_keeps_rows_with_coordinates_witness:
  "sorter_ok sort_values_stable
   \<and> to_datetime (map timestamp (map (\<lambda>r. set_timestamp r (Parsable (nanos (timestamp r)))) [later, nowhere, far]))
       = Inr [Timestamp 12000000000, Timestamp 0, Timestamp 0]
   \<and> mset (snd (load_data sort_values_stable
         (map (\<lambda>r. set_timestamp r (Parsable (nanos (timestamp r)))) [later, nowhere, far])))
       = mset [later, far]"
proof -
  let ?raw = "map (\<lambda>r. set_timestamp r (Parsable (nanos (timestamp r)))) [later, nowhere, far]"
  have ts: "to_datetime (map timestamp ?raw) = Inr [Timestamp 12000000000, Timestamp 0, Timestamp 0]"
    by (simp add: set_timestamp_def later_def nowhere_def far_def sample_def)
  show ?thesis
    using load_keeps_rows_with_coordinates [OF sorter_ok_stable ts] ts sorter_ok_stable
    by (simp add: set_timestamp_def later_def nowhere_def far_def sample_def)
qed

text \<open>
  C3 as stated fails: a row at latitude 95 and longitude 200 is retained.
\<close>

theorem out_of_range_row_retained:
  "latitude far = Num 95 \<and> longitude far = Num 200
   \<and> load_data sort_values_stable [set_timestamp far (Parsable 0)] = (Loaded 1, [far])"
  by (simp add: load_data_def set_timestamp_def far_def sample_def
      dropna_coords_def sort_values_stable_def no_time_def)

section \<open>Tracks\<close>

lemma drop_duplicates_seen_coords:
  "set (map coords (drop_duplicates_seen seen rs)) = set (map coords rs) - set seen"
  by (induction rs arbitrary: seen) auto

lemma drop_duplicates_seen_distinct: "distinct (map coords (drop_duplicates_seen seen rs))"
  by (induction rs arbitrary: seen) (auto simp: drop_duplicates_seen_coords simp del: set_map)

lemma drop_duplicates_seen_snoc:
  "drop_duplicates_seen seen (rs @ [r])
   = (if coords r \<in> set seen \<union> set (map coords rs) then drop_duplicates_seen seen rs
      else drop_duplicates_seen seen rs @ [r])"
  by (induction rs arbitrary: seen) auto

lemma drop_duplicates_length:
  "length (drop_duplicates g) = card (set (map coords g))"
proof -
  have "length (drop_duplicates g) = length (map coords (drop_duplicates g))" by simp
  also have "\<dots> = card (set (map coords (drop_duplicates g)))"
    unfolding drop_duplicates_def by (rule distinct_card [symmetric, OF drop_duplicates_seen_distinct])
  also have "\<dots> = card (set (map coords g))"
    by (simp only: drop_duplicates_def drop_duplicates_seen_coords) simp
  finally show ?thesis .
qed

lemma paths_loop_rows:
  "p \<in> set (paths_loop srt mp c gs) \<Longrightarrow>
   \<exists>g. (path_aircraft p, g) \<in> set gs \<and> path_rows p = drop_duplicates (srt g)"
proof (induction gs arbitrary: c)
  case Nil
  then show ?case by simp
next
  case (Cons kg gs)
  obtain k g where kg: "kg = (k, g)" by (cases kg)
  from Cons.prems kg consider
    "path_aircraft p = k \<and> path_rows p = drop_duplicates (srt g)"
    | "p \<in> set (paths_loop srt mp (c + 1) gs)" | "p \<in> set (paths_loop srt mp c gs)"
    by (auto simp: Let_def split: if_splits)
  then show ?case
  proof cases
    case 1
    with kg show ?thesis by auto
  next
    case 2
    from Cons.IH [OF this] show ?thesis by auto
  next
    case 3
    from Cons.IH [OF this] show ?thesis by auto
  qed
qed

lemma there_and_back:
  "create_flight_paths sort_values_stable 2 [sample, later, revisit]
   = Done \<lparr>paths_location = (Num (235 / 6), Num (-105)),
           paths_drawn = [\<lparr>path_aircraft = ''a1b2c3'', path_color = ''red'',
                           path_rows = [sample, later]\<rparr>],
           paths_created = 1\<rparr>"
  by (simp add: create_flight_paths_def groupby_icao24_def sort_values_stable_def no_time_def
      drop_duplicates_def coords_def colors_def center_def mean_def
      sample_def later_def revisit_def Let_def)

lemma two_aircraft_paths:
  "create_flight_paths sort_values_stable 2 two_aircraft
   = Done \<lparr>paths_location = (Num (313 / 8), Num (-419 / 4)), paths_drawn = two_paths,
           paths_created = 2\<rparr>"
  by (simp add: create_flight_paths_def groupby_icao24_def sort_values_stable_def no_time_def
      drop_duplicates_def coords_def colors_def center_def mean_def two_aircraft_def two_paths_def
      sample_def later_def other_def other_later_def Let_def)

lemma two_aircraft_shuffled_paths:
  "create_flight_paths sort_values_stable 2 two_aircraft_shuffled
   = Done \<lparr>paths_location = (Num (313 / 8), Num (-419 / 4)), paths_drawn = two_paths,
           paths_created = 2\<rparr>"
  by (simp add: create_flight_paths_def groupby_icao24_def sort_values_stable_def no_time_def
      drop_duplicates_def coords_def colors_def center_def mean_def two_aircraft_shuffled_def
      two_paths_def sample_def later_def other_def other_later_def Let_def)

text \<open>
  C4, as the code has it. The claim: only consecutive runs of equal coordinates are
  collapsed, and a record whose coordinates equal those of an earlier, non-adjacent record
  of the track is retained. \<^verbatim>\<open>drop_duplicates(subset=['latitude', 'longitude'],
  keep='first')\<close> (``remove any duplicate positions'') compares a row with every earlier row
  of the group. Every drawn path is the deduplicated, time-sorted group of its aircraft; no
  two of its points share coordinates; and a row appended to a group is kept exactly when no
  row before it, adjacent or not, has its coordinates.
\<close>

theorem track_keeps_first_of_each_position:
  assumes "create_flight_paths sort_values min_points s = Done fp"
    and "p \<in> set (paths_drawn fp)"
  shows "(\<exists>g. (path_aircraft p, g) \<in> set (groupby_icao24 s)
            \<and> path_rows p = drop_duplicates (sort_values g))
         \<and> distinct (path_coordinates p)
         \<and> drop_duplicates (rs @ [r])
             = (if coords r \<in> set (map coords rs) then drop_duplicates rs
                else drop_duplicates rs @ [r])"
proof -
  from assms have "p \<in> set (paths_loop sort_values min_points 0 (groupby_icao24 s))"
    by (auto simp: create_flight_paths_def Let_def split: if_splits)
  from paths_loop_rows [OF this] obtain g where
    g: "(path_aircraft p, g) \<in> set (groupby_icao24 s)" "path_rows p = drop_duplicates (sort_values g)"
    by blast
  then have "distinct (path_coordinates p)"
    by (simp add: path_coordinates_def drop_duplicates_def drop_duplicates_seen_distinct)
  moreover have "drop_duplicates (rs @ [r])
      = (if coords r \<in> set (map coords rs) then drop_duplicates rs else drop_duplicates rs @ [r])"
    by (simp add: drop_duplicates_def drop_duplicates_seen_snoc)
  ultimately show ?thesis using g by blast
qed

theorem track_keeps_first_of_each_position_witness:
  "create_flight_paths sort_values_stable 2 two_aircraft
     = Done \<lparr>paths_location = (Num (313 / 8), Num (-419 / 4)), paths_drawn = two_paths,
             paths_created = 2\<rparr>
   \<and> hd two_paths \<in> set two_paths
   \<and> path_rows (hd two_paths) = drop_duplicates (sort_values_stable [sample, later])
   \<and> distinct (path_coordinates (hd two_paths))
   \<and> drop_duplicates ([sample, later] @ [revisit]) = [sample, later]"
proof -
  have "hd two_paths \<in> set (paths_drawn \<lparr>paths_location = (Num (313 / 8), Num (-419 / 4)),
      paths_drawn = two_paths, paths_created = 2\<rparr>)"
    by (simp add: two_paths_def)
  from track_keeps_first_of_each_position [OF two_aircraft_paths this, of "[sample, later]" revisit]
    two_aircraft_paths
  show ?thesis
    by (simp add: two_paths_def sort_values_stable_def no_time_def drop_duplicates_def coords_def
        sample_def later_def revisit_def)
qed

text \<open>
  C4 as stated fails: an aircraft seen at a position, then elsewhere, then at the first
  position again gets a path of two points; the third record is dropped.
\<close>

theorem non_adjacent_duplicate_dropped:
  "coords revisit = coords sample \<and> coords later \<noteq> coords sample
   \<and> create_flight_paths sort_values_stable 2 [sample, later, revisit]
     = Done \<lparr>paths_location = (Num (235 / 6), Num (-105)),
             paths_drawn = [\<lparr>path_aircraft = ''a1b2c3'', path_color = ''red'',
                             path_rows = [sample, later]\<rparr>],
             paths_created = 1\<rparr>"
  using there_and_back by (simp add: coords_def sample_def later_def revisit_def)

subsection \<open>Group order and colours\<close>

lemma dropna_values_mem: "v \<in> set (dropna_values vs) \<longleftrightarrow> Some v \<in> set vs"
  by (induction vs rule: dropna_values.induct) auto

lemma groupby_keys:
  "map fst (groupby_icao24 s) = sorted_list_of_set {k. Some k \<in> set (map icao24 s)}"
proof -
  have "set (dropna_values (map icao24 s)) = {k. Some k \<in> set (map icao24 s)}"
    by (auto simp: dropna_values_mem simp del: set_map)
  then show ?thesis
    by (simp add: groupby_icao24_def comp_def sorted_list_of_set_sort_remdups [symmetric]
        del: set_map)
qed

lemma groupby_ascending: "sorted_wrt (<) (map fst (groupby_icao24 s))"
  by (simp add: groupby_keys del: set_map)

lemma paths_loop_aircraft:
  "set (map path_aircraft (paths_loop srt mp c gs)) \<subseteq> set (map fst gs)"
proof (induction gs arbitrary: c)
  case Nil
  then show ?case by simp
next
  case (Cons kg gs)
  obtain k g where kg: "kg = (k, g)" by (cases kg)
  have "set (map path_aircraft (paths_loop srt mp c' gs)) \<subseteq> insert k (set (map fst gs))" for c'
    using Cons.IH [of c'] by auto
  with kg show ?case by (auto simp: Let_def simp del: set_map)
qed

lemma paths_loop_ascending:
  "sorted_wrt (<) (map fst gs) \<Longrightarrow>
   sorted_wrt (<) (map path_aircraft (paths_loop srt mp c gs))"
proof (induction gs arbitrary: c)
  case Nil
  then show ?case by simp
next
  case (Cons kg gs)
  obtain k g where kg: "kg = (k, g)" by (cases kg)
  from Cons.prems have tail: "sorted_wrt (<) (map fst gs)" by simp
  have above: "k < a" if "a \<in> set (map path_aircraft (paths_loop srt mp c' gs))" for a c'
  proof -
    from that paths_loop_aircraft [of srt mp c' gs] have "a \<in> set (map fst gs)" by blast
    with Cons.prems kg show ?thesis by auto
  qed
  from kg Cons.IH [OF tail] above show ?case
    by (auto simp: Let_def simp del: set_map)
qed

lemma paths_loop_color:
  "i < length (paths_loop srt mp c gs) \<Longrightarrow>
   path_color (paths_loop srt mp c gs ! i) = colors ! ((c + i) mod length colors)"
proof (induction gs arbitrary: c i)
  case Nil
  then show ?case by simp
next
  case (Cons kg gs)
  obtain k g where kg: "kg = (k, g)" by (cases kg)
  show ?case
  proof (cases "paths_loop srt mp c (kg # gs) = paths_loop srt mp c gs")
    case True
    with Cons show ?thesis by simp
  next
    case False
    with kg have step: "paths_loop srt mp c (kg # gs)
        = \<lparr>path_aircraft = k, path_color = colors ! (c mod length colors),
            path_rows = drop_duplicates (srt g)\<rparr> # paths_loop srt mp (c + 1) gs"
      by (auto simp: Let_def split: if_splits)
    show ?thesis
    proof (cases i)
      case 0
      with step show ?thesis by simp
    next
      case (Suc j)
      with Cons.prems step have "j < length (paths_loop srt mp (c + 1) gs)" by simp
      from Cons.IH [OF this] Suc step show ?thesis by simp
    qed
  qed
qed

lemma paths_loop_permuted:
  assumes "\<And>g. mset (srt g) = mset g" and "\<And>g. mset (srt' g) = mset g"
    and "list_all2 (\<lambda>(k, g) (k', g'). k = k' \<and> mset g = mset g') gs gs'"
  shows "map (\<lambda>p. (path_aircraft p, path_color p)) (paths_loop srt mp c gs)
         = map (\<lambda>p. (path_aircraft p, path_color p)) (paths_loop srt' mp c gs')"
  using assms(3)
proof (induction gs gs' arbitrary: c rule: list_all2_induct)
  case Nil
  then show ?case by simp
next
  case (Cons kg gs kg' gs')
  obtain k g where kg: "kg = (k, g)" by (cases kg)
  obtain k' g' where kg': "kg' = (k', g')" by (cases kg')
  from Cons.hyps(1) kg kg' have k: "k' = k" and g: "mset g = mset g'" by auto
  from g assms(1,2) have sorted_same: "mset (srt g) = mset (srt' g')" by simp
  then have len: "length (srt g) = length (srt' g')" by (rule mset_eq_length)
  from sorted_same have "set (srt g) = set (srt' g')" by (rule mset_eq_setD)
  then have dedup: "length (drop_duplicates (srt g)) = length (drop_duplicates (srt' g'))"
    by (simp add: drop_duplicates_length)
  from kg kg' k len dedup Cons.IH show ?case
    by (simp add: Let_def)
qed

lemma groupby_permuted:
  assumes "mset s = mset s'"
  shows "list_all2 (\<lambda>(k, g) (k', g'). k = k' \<and> mset g = mset g')
           (groupby_icao24 s) (groupby_icao24 s')"
proof -
  from assms have "set s = set s'" by (rule mset_eq_setD)
  then have "set (dropna_values (map icao24 s)) = set (dropna_values (map icao24 s'))"
    by (auto simp: dropna_values_mem)
  then have keys: "sort (remdups (dropna_values (map icao24 s)))
      = sort (remdups (dropna_values (map icao24 s')))"
    by (simp add: sorted_list_of_set_sort_remdups [symmetric])
  have "mset (filter P s) = mset (filter P s')" for P
    using assms by simp
  then show ?thesis
    by (simp add: groupby_icao24_def keys list_all2_map1 list_all2_map2 list_all2_same)
qed

lemma map_loop_colors:
  "map (\<lambda>t. (track_aircraft t, track_color t)) (map_loop srt c gs)
   = map (\<lambda>(i, k). (k, simple_colors ! ((c + i) mod length simple_colors)))
       (enumerate 0 (map fst gs))"
proof (induction gs arbitrary: c)
  case Nil
  then show ?case by simp
next
  case (Cons kg gs)
  obtain k g where kg: "kg = (k, g)" by (cases kg)
  have "enumerate 1 (map fst gs) = map (\<lambda>(i, k). (Suc i, k)) (enumerate 0 (map fst gs))"
    by (simp add: enumerate_eq_zip map_Suc_upt [symmetric] zip_map1 del: upt_Suc)
  with kg Cons.IH [of "c + 1"] show ?case
    by (simp add: Let_def case_prod_beta comp_def)
qed

lemma groupby_keys_permuted:
  assumes "mset s = mset s'"
  shows "map fst (groupby_icao24 s) = map fst (groupby_icao24 s')"
proof -
  from assms have "set s = set s'" by (rule mset_eq_setD)
  then show ?thesis by (simp add: groupby_keys)
qed

text \<open>
  C10. The groups are visited in ascending order of \<^verbatim>\<open>icao24\<close>, each identity once; the
  drawn paths follow that order and the \<open>i\<close>-th drawn path gets the \<open>i\<close>-th palette colour,
  round robin. The assignment of colours to aircraft is a function of the records alone: two
  runs give the same assignment whatever order the sort routine leaves equal timestamps in,
  and even when the rows of the store are permuted. The same holds for the tracks of
  \<^verbatim>\<open>create_map\<close> in \<^verbatim>\<open>analysis_simple.py\<close>, which colours every group.
\<close>

theorem path_colors_deterministic:
  assumes "sorter_ok srt" and "sorter_ok srt'" and "mset s = mset s'"
    and "create_flight_paths srt min_points s = Done fp"
    and "create_flight_paths srt' min_points s' = Done fp'"
  shows "map fst (groupby_icao24 s) = sorted_list_of_set {k. Some k \<in> set (map icao24 s)}
         \<and> sorted_wrt (<) (map path_aircraft (paths_drawn fp))
         \<and> (\<forall>i < length (paths_drawn fp).
               path_color (paths_drawn fp ! i) = colors ! (i mod length colors))
         \<and> map (\<lambda>p. (path_aircraft p, path_color p)) (paths_drawn fp)
           = map (\<lambda>p. (path_aircraft p, path_color p)) (paths_drawn fp')
         \<and> (case (create_map srt s, create_map srt' s') of
              (Done m, Done m') \<Rightarrow>
                map track_aircraft (simple_tracks m) = map fst (groupby_icao24 s)
                \<and> map (\<lambda>t. (track_aircraft t, track_color t)) (simple_tracks m)
                  = map (\<lambda>t. (track_aircraft t, track_color t)) (simple_tracks m')
            | _ \<Rightarrow> False)"
proof -
  from assms(4) have ne: "s \<noteq> []"
    and fp: "paths_drawn fp = paths_loop srt min_points 0 (groupby_icao24 s)"
    by (auto simp: create_flight_paths_def Let_def split: if_splits)
  from assms(5) have ne': "s' \<noteq> []"
    and fp': "paths_drawn fp' = paths_loop srt' min_points 0 (groupby_icao24 s')"
    by (auto simp: create_flight_paths_def Let_def split: if_splits)
  have perm: "mset (srt g) = mset g" "mset (srt' g) = mset g" for g
    using assms(1,2) by (simp_all add: sorter_ok_def sort_values_ok_def)
  have "sorted_wrt (<) (map path_aircraft (paths_drawn fp))"
    unfolding fp by (rule paths_loop_ascending [OF groupby_ascending])
  moreover have "\<forall>i < length (paths_drawn fp).
      path_color (paths_drawn fp ! i) = colors ! (i mod length colors)"
    unfolding fp using paths_loop_color [of _ srt min_points 0] by simp
  moreover have "map (\<lambda>p. (path_aircraft p, path_color p)) (paths_drawn fp)
      = map (\<lambda>p. (path_aircraft p, path_color p)) (paths_drawn fp')"
    unfolding fp fp'
    by (rule paths_loop_permuted [OF perm groupby_permuted [OF assms(3)]])
  moreover have "map track_aircraft (map_loop srt 0 (groupby_icao24 s)) = map fst (groupby_icao24 s)"
  proof -
    have "map fst (map (\<lambda>t. (track_aircraft t, track_color t)) (map_loop srt 0 (groupby_icao24 s)))
        = map fst (groupby_icao24 s)"
      unfolding map_loop_colors
      by (simp add: comp_def case_prod_beta enumerate_eq_zip)
    then show ?thesis by (simp add: comp_def)
  qed
  moreover have "map (\<lambda>t. (track_aircraft t, track_color t)) (map_loop srt 0 (groupby_icao24 s))
      = map (\<lambda>t. (track_aircraft t, track_color t)) (map_loop srt' 0 (groupby_icao24 s'))"
    by (simp only: map_loop_colors groupby_keys_permuted [OF assms(3)])
  ultimately show ?thesis using groupby_keys ne ne'
    by (simp add: create_map_def)
qed

theorem path_colors_deterministic_witness:
  "sorter_ok sort_values_stable
   \<and> mset two_aircraft = mset two_aircraft_shuffled
   \<and> create_flight_paths sort_values_stable 2 two_aircraft
       = Done \<lparr>paths_location = (Num (313 / 8), Num (-419 / 4)), paths_drawn = two_paths,
               paths_created = 2\<rparr>
   \<and> create_flight_paths sort_values_stable 2 two_aircraft_shuffled
       = Done \<lparr>paths_location = (Num (313 / 8), Num (-419 / 4)), paths_drawn = two_paths,
               paths_created = 2\<rparr>
   \<and> map fst (groupby_icao24 two_aircraft) = [''a1b2c3'', ''d4e5f6'']
   \<and> sorted_wrt (<) (map path_aircraft two_paths)
   \<and> map (\<lambda>p. (path_aircraft p, path_color p)) two_paths
       = [(''a1b2c3'', ''red''), (''d4e5f6'', ''blue'')]
   \<and> map (\<lambda>t. (track_aircraft t, track_color t))
         (map_loop sort_values_stable 0 (groupby_icao24 two_aircraft_shuffled))
       = [(''a1b2c3'', ''red''), (''d4e5f6'', ''blue'')]"
proof -
  have simple: "map (\<lambda>t. (track_aircraft t, track_color t))
         (map_loop sort_values_stable 0 (groupby_icao24 two_aircraft_shuffled))
       = [(''a1b2c3'', ''red''), (''d4e5f6'', ''blue'')]"
    by (simp add: groupby_icao24_def two_aircraft_shuffled_def sample_def later_def other_def
        other_later_def simple_colors_def Let_def)
  have perm: "mset two_aircraft = mset two_aircraft_shuffled"
    by (simp add: two_aircraft_def two_aircraft_shuffled_def)
  have keys: "map fst (groupby_icao24 two_aircraft) = [''a1b2c3'', ''d4e5f6'']"
    by (simp add: groupby_icao24_def two_aircraft_def sample_def later_def other_def
        other_later_def)
  from path_colors_deterministic [OF sorter_ok_stable sorter_ok_stable perm
      two_aircraft_paths two_aircraft_shuffled_paths]
    sorter_ok_stable perm two_aircraft_paths two_aircraft_shuffled_paths keys
    simple
  show ?thesis
    by (simp add: two_paths_def)
qed

section \<open>Animation period\<close>

lemma features_of_timed:
  "features_of rs = Inr fs \<Longrightarrow> \<forall>r\<in>set rs. timestamp r \<noteq> NaT"
proof (induction rs arbitrary: fs)
  case Nil
  then show ?case by simp
next
  case (Cons r rs)
  from Cons.prems obtain t where t: "strftime (timestamp r) = Inr t"
    by (auto simp: Let_def split: sum.splits)
  then have "timestamp r \<noteq> NaT" by auto
  moreover from Cons.prems t obtain fs' where "features_of rs = Inr fs'"
    by (auto simp: Let_def split: sum.splits)
  ultimately show ?case using Cons.IH by auto
qed

lemma animation_timed:
  assumes "create_time_animation s = Inr (Done a)"
  shows "s \<noteq> []" and "\<forall>r\<in>set s. timestamp r \<noteq> NaT"
    and "animation_period a = period_of (avg_interval s)"
proof -
  show ne: "s \<noteq> []"
    using assms by (auto simp: create_time_animation_def)
  from assms ne obtain fs where fs: "features_of (sort_by_time_and_id s) = Inr fs"
    and a: "a = \<lparr>animation_location = center s, animation_features = fs,
                  animation_period = period_of (avg_interval s)\<rparr>"
    by (auto simp: create_time_animation_def Let_def split: sum.splits)
  from features_of_timed [OF fs] show "\<forall>r\<in>set s. timestamp r \<noteq> NaT"
    by (simp add: sort_by_time_and_id_def)
  from a show "animation_period a = period_of (avg_interval s)" by simp
qed

lemma diff_from_timed:
  "dropna_deltas (diff_from (Timestamp p) (map Timestamp ns)) = map2 (\<lambda>b a. b - a) ns (p # ns)"
  by (induction ns arbitrary: p) auto

lemma timestamps_timed:
  "\<forall>r\<in>set s. timestamp r \<noteq> NaT \<Longrightarrow>
   map timestamp s = map Timestamp (map (\<lambda>r. nanos (timestamp r)) s)"
proof (induction s)
  case Nil
  then show ?case by simp
next
  case (Cons r s)
  then show ?case by (cases "timestamp r") auto
qed

lemma time_diff_timed:
  assumes "\<forall>r\<in>set s. timestamp r \<noteq> NaT"
  shows "time_diff s
         = map2 (\<lambda>b a. b - a) (tl (map (\<lambda>r. nanos (timestamp r)) s)) (map (\<lambda>r. nanos (timestamp r)) s)"
proof (cases "map (\<lambda>r. nanos (timestamp r)) s")
  case Nil
  then show ?thesis by (simp add: time_diff_def)
next
  case (Cons n ns)
  with timestamps_timed [OF assms] have "map timestamp s = Timestamp n # map Timestamp ns"
    by simp
  with Cons show ?thesis
    by (simp add: time_diff_def diff_from_timed)
qed

lemma time_diff_short: "length s < 2 \<Longrightarrow> time_diff s = []"
proof (cases s)
  case Nil
  then show ?thesis by (simp add: time_diff_def)
next
  case (Cons r rs)
  assume "length s < 2"
  with Cons have "rs = []" by simp
  with Cons show ?thesis by (simp add: time_diff_def)
qed

lemma median_Some:
  assumes "xs \<noteq> []"
  shows "\<exists>m. median xs = Some m"
proof -
  have "sort xs \<noteq> []"
  proof
    assume "sort xs = []"
    then have "set (sort xs) = {}" by simp
    with assms show False by simp
  qed
  then show ?thesis by (simp add: median_def Let_def)
qed

lemma halve_between: "a \<le> b \<Longrightarrow> a \<le> halve (a + b) \<and> halve (a + b) \<le> b"
  by (auto simp: halve_def)

lemma count_prefix:
  assumes "n \<le> length ys" and "\<forall>i<n. P (ys ! i)"
  shows "n \<le> length (filter P ys)"
proof -
  have "filter P (take n ys) = take n ys"
    using assms by (auto simp: filter_id_conv in_set_conv_nth)
  then have "length (filter P (take n ys)) = n"
    using assms(1) by simp
  moreover have "length (filter P ys) = length (filter P (take n ys)) + length (filter P (drop n ys))"
    by (metis append_take_drop_id filter_append length_append)
  ultimately show ?thesis by simp
qed

lemma count_suffix:
  assumes "n \<le> length ys" and "\<forall>i<length ys. n \<le> i \<longrightarrow> P (ys ! i)"
  shows "length ys - n \<le> length (filter P ys)"
proof -
  have "filter P (drop n ys) = drop n ys"
    using assms by (auto simp: filter_id_conv in_set_conv_nth)
  then have "length (filter P (drop n ys)) = length ys - n"
    by simp
  moreover have "length (filter P ys) = length (filter P (take n ys)) + length (filter P (drop n ys))"
    by (metis append_take_drop_id filter_append length_append)
  ultimately show ?thesis by simp
qed

lemma median_splits_in_half:
  assumes "median xs = Some m"
  shows "length xs \<le> 2 * length (filter (\<lambda>x. x \<le> m) xs)
         \<and> length xs \<le> 2 * length (filter (\<lambda>x. m \<le> x) xs)"
proof -
  let ?ys = "sort xs"
  let ?n = "length ?ys"
  have counts: "length (filter P xs) = length (filter P ?ys)" for P
    by (rule mset_eq_length) simp
  have srt: "?ys ! i \<le> ?ys ! j" if "i \<le> j" "j < ?n" for i j
    using that by (simp add: sorted_nth_mono)
  from assms have pos: "0 < ?n"
    by (auto simp: median_def Let_def split: if_splits)
  from assms have med:
    "m = (if odd (length xs) then ?ys ! (length xs div 2)
          else halve (?ys ! (length xs div 2 - 1) + ?ys ! (length xs div 2)))"
    by (auto simp: median_def Let_def split: if_splits)
  show ?thesis
  proof (cases "odd ?n")
    case True
    then obtain k where k: "?n = 2 * k + 1" by (auto elim: oddE)
    with med have m: "m = ?ys ! k"
      by simp
    have "k + 1 \<le> length (filter (\<lambda>x. x \<le> m) ?ys)"
      using k m srt by (intro count_prefix) auto
    moreover have "?n - k \<le> length (filter (\<lambda>x. m \<le> x) ?ys)"
      using k m srt by (intro count_suffix) auto
    ultimately show ?thesis using k counts by simp
  next
    case False
    then obtain k where "?n = 2 * k" by (auto elim: evenE)
    with pos have k: "?n = 2 * k" "0 < k" by (cases k; simp)+
    with med have m: "m = halve (?ys ! (k - 1) + ?ys ! k)"
      by simp
    from k srt [of "k - 1" k] have "?ys ! (k - 1) \<le> ?ys ! k" by simp
    from halve_between [OF this] m have between: "?ys ! (k - 1) \<le> m" "m \<le> ?ys ! k" by simp_all
    have "k \<le> length (filter (\<lambda>x. x \<le> m) ?ys)"
    proof (intro count_prefix allI impI)
      show "k \<le> ?n" using k by simp
      fix i assume "i < k"
      with k srt [of i "k - 1"] have "?ys ! i \<le> ?ys ! (k - 1)" by simp
      with between show "?ys ! i \<le> m" by simp
    qed
    moreover have "?n - k \<le> length (filter (\<lambda>x. m \<le> x) ?ys)"
    proof (intro count_suffix allI impI)
      show "k \<le> ?n" using k by simp
      fix i assume "i < ?n" "k \<le> i"
      with srt [of k i] have "?ys ! k \<le> ?ys ! i" by simp
      with between show "m \<le> ?ys ! i" by simp
    qed
    ultimately show ?thesis using k counts by simp
  qed
qed

lemma avg_interval_default: "length s < 2 \<Longrightarrow> avg_interval s = Num 60"
  by (simp add: avg_interval_def time_diff_short)

lemma period_of_seconds:
  "(seconds m < 30 \<longrightarrow> period_of (Num (seconds m)) = ''PT10S'')
   \<and> (30 \<le> seconds m \<and> seconds m < 120 \<longrightarrow> period_of (Num (seconds m)) = ''PT30S'')
   \<and> (120 \<le> seconds m \<longrightarrow> period_of (Num (seconds m)) = ''PT1M'')"
  by (simp add: period_of_def)

lemma cadence_animation:
  "create_time_animation (cadence [0, 10, 20, 220, 230])
     = Inr (Done \<lparr>animation_location = (Num 39, Num (-105)),
                  animation_features =
                    map (\<lambda>t. \<lparr>feature_coordinates = (Num (-105), Num 39), feature_time = t,
                               feature_color = ''red'', feature_altitude = Num 11000,
                               feature_row = sample\<lparr>timestamp := Timestamp (t * 1000000000)\<rparr>\<rparr>)
                      [0, 10, 20, 220, 230],
                  animation_period = ''PT10S''\<rparr>)"
  by (simp add: create_time_animation_def cadence_def sample_def center_def mean_def
      avg_interval_def time_diff_def median_def halve_def seconds_def period_of_def
      sort_by_time_and_id_def altitude_of_def py_or_def altitude_color_def Let_def)

text \<open>
  C5, as the code has it. The claim: fewer than two records yield the 60-second default;
  otherwise the median of the consecutive timestamp differences picks the period, 10 s
  below 30 s, 30 s from 30 s up to 120 s, 60 s from 120 s on. With fewer than two records
  the code sets the interval, not the period, to 60 seconds, and the brackets then pick
  \<^verbatim>\<open>PT30S\<close> for it. With two records or more, in an animation that is built, the median of
  the consecutive differences picks the period as claimed, the bounds 30 s and 120 s
  belonging to the higher bracket.
\<close>

theorem animation_period_from_median:
  assumes "create_time_animation s = Inr (Done a)"
  shows "(length s < 2 \<longrightarrow> avg_interval s = Num 60 \<and> animation_period a = ''PT30S'')
         \<and> (2 \<le> length s \<longrightarrow>
              (\<exists>m. median (map2 (\<lambda>b a. b - a) (tl (map (\<lambda>r. nanos (timestamp r)) s))
                                (map (\<lambda>r. nanos (timestamp r)) s)) = Some m
                 \<and> (seconds m < 30 \<longrightarrow> animation_period a = ''PT10S'')
                 \<and> (30 \<le> seconds m \<and> seconds m < 120 \<longrightarrow> animation_period a = ''PT30S'')
                 \<and> (120 \<le> seconds m \<longrightarrow> animation_period a = ''PT1M'')))"
proof (intro conjI impI)
  note timed = animation_timed [OF assms]
  show "avg_interval s = Num 60" if "length s < 2"
    using that by (rule avg_interval_default)
  show "animation_period a = ''PT30S''" if "length s < 2"
    using that timed(3) by (simp add: avg_interval_default period_of_def)
  let ?ns = "map (\<lambda>r. nanos (timestamp r)) s"
  let ?ds = "map2 (\<lambda>b a. b - a) (tl ?ns) ?ns"
  show "\<exists>m. median ?ds = Some m
          \<and> (seconds m < 30 \<longrightarrow> animation_period a = ''PT10S'')
          \<and> (30 \<le> seconds m \<and> seconds m < 120 \<longrightarrow> animation_period a = ''PT30S'')
          \<and> (120 \<le> seconds m \<longrightarrow> animation_period a = ''PT1M'')"
    if "2 \<le> length s"
  proof -
    have ds: "time_diff s = ?ds" by (rule time_diff_timed [OF timed(2)])
    have "length ?ds = length s - 1" by simp
    with that have ne: "?ds \<noteq> []" by (metis length_0_conv diff_is_0_eq not_less_eq_eq numeral_2_eq_2 One_nat_def)
    then obtain m where m: "median ?ds = Some m" using median_Some by blast
    with ds ne timed(3) have "animation_period a = period_of (Num (seconds m))"
      by (simp add: avg_interval_def Let_def)
    with m period_of_seconds [of m] show ?thesis by simp
  qed
qed

theorem animation_period_from_median_witness:
  "create_time_animation (cadence [0, 10, 20, 220, 230])
     = Inr (Done \<lparr>animation_location = (Num 39, Num (-105)),
                  animation_features =
                    map (\<lambda>t. \<lparr>feature_coordinates = (Num (-105), Num 39), feature_time = t,
                               feature_color = ''red'', feature_altitude = Num 11000,
                               feature_row = sample\<lparr>timestamp := Timestamp (t * 1000000000)\<rparr>\<rparr>)
                      [0, 10, 20, 220, 230],
                  animation_period = ''PT10S''\<rparr>)
   \<and> 2 \<le> length (cadence [0, 10, 20, 220, 230])
   \<and> median [10000000000, 10000000000, 200000000000, 10000000000] = Some 10000000000
   \<and> seconds 10000000000 < 30
   \<and> period_of (Num (seconds 30000000000)) = ''PT30S''
   \<and> period_of (Num (seconds 120000000000)) = ''PT1M''"
  using animation_period_from_median [OF cadence_animation] cadence_animation
  by (simp add: cadence_def median_def halve_def seconds_def period_of_def)

text \<open>
  C5 as stated fails for a store of one record: the period is 30 seconds.
\<close>

theorem single_record_period:
  "create_time_animation [sample]
     = Inr (Done \<lparr>animation_location = (Num 39, Num (-105)),
                  animation_features =
                    [\<lparr>feature_coordinates = (Num (-105), Num 39), feature_time = 0,
                      feature_color = ''red'', feature_altitude = Num 11000,
                      feature_row = sample\<rparr>],
                  animation_period = ''PT30S''\<rparr>)"
  by (simp add: create_time_animation_def sample_def center_def mean_def avg_interval_def
      time_diff_def period_of_def sort_by_time_and_id_def altitude_of_def py_or_def
      altitude_color_def Let_def)

section \<open>Statistics\<close>

lemma counts_sorter_ok_stable: "counts_sorter_ok sort_counts_stable"
proof -
  have "sorted_wrt (\<lambda>a b. snd b \<le> snd a) ys"
    if "sorted (map (\<lambda>(v, n). - int n) ys)" for ys :: "(string \<times> nat) list"
    using that by (induction ys) (auto simp: case_prod_beta)
  then show ?thesis
    by (simp add: counts_sorter_ok_def sort_counts_ok_def sort_counts_stable_def)
qed

text \<open>
  C7. The claim: the missing-altitude figure is the number of records without altitude over
  the number of records, never more than 100%. The code adds the number of missing
  barometric cells to the number of missing geometric cells, so a record with neither
  altitude counts twice: for a store of one such record the report reads 2/1, 200%.
\<close>

theorem missing_altitude_counts_cells:
  "isna (baro_altitude blind) \<and> isna (geo_altitude blind)
   \<and> missing_altitude [blind] = 2 \<and> length [blind] = 1
   \<and> percent (missing_altitude [blind]) (length [blind]) = 200
   \<and> length (filter (\<lambda>r. isna (baro_altitude r) \<or> isna (geo_altitude r)) [blind]) = 1
   \<and> (case generate_statistics sort_counts_stable [blind] of
          Done rep \<Rightarrow> report_total rep = 1 \<and> report_missing_altitude rep = (2, 200)
        | NoData msg \<Rightarrow> False)"
  by (simp add: blind_def sample_def missing_altitude_def percent_def generate_statistics_def
      Let_def)

lemma count_dropna_values: "count_list (dropna_values vs) v = count_list vs (Some v)"
  by (induction vs rule: dropna_values.induct) auto

lemma count_callsign:
  "count_list (map callsign s) c = length (filter (\<lambda>r. callsign r = c) s)"
  by (induction s) auto

lemma set_unique: "set (unique vs) = set vs"
  by (simp add: unique_def)

lemma callsigns_entry:
  assumes "counts_sorter_ok sort_counts" and "(c, n) \<in> set (callsigns sort_counts s)"
  shows "n = length (filter (\<lambda>r. callsign r = Some c) s) \<and> 0 < n"
proof -
  let ?vs = "dropna_values (map callsign s)"
  let ?table = "map (\<lambda>v. (v, count_list ?vs v)) (unique ?vs)"
  have "mset (sort_counts ?table) = mset ?table"
    using assms(1) by (simp add: counts_sorter_ok_def sort_counts_ok_def)
  then have "set (sort_counts ?table) = set ?table"
    by (rule mset_eq_setD)
  moreover have "(c, n) \<in> set (sort_counts ?table)"
    using assms(2) by (auto simp: callsigns_def value_counts_def dest: in_set_takeD)
  ultimately have "(c, n) \<in> set ?table" by simp
  then have c: "c \<in> set ?vs" and n: "n = count_list ?vs c"
    by (auto simp: set_unique)
  from n have "n = length (filter (\<lambda>r. callsign r = Some c) s)"
    by (simp add: count_dropna_values count_callsign)
  moreover from c n have "0 < n"
    using count_list_0_iff [of ?vs c] by simp
  ultimately show ?thesis by simp
qed

text \<open>
  C8, as the code has it. The claim: the list of the ten most frequent callsigns holds only
  non-blank callsigns. \<^verbatim>\<open>dropna()\<close> removes the missing callsigns and nothing removes the
  blank ones. The list has at most ten entries; each is the stripped text of a callsign
  that some record carries, with the number of records that carry it, so a record without
  callsign contributes nothing.
\<close>

theorem top_callsigns_present_only:
  assumes "counts_sorter_ok sort_counts" and "(name, n) \<in> set (top_callsigns sort_counts s)"
  shows "length (top_callsigns sort_counts s) \<le> 10
         \<and> (\<exists>c. name = strip c \<and> n = length (filter (\<lambda>r. callsign r = Some c) s) \<and> 0 < n)"
proof -
  from assms(2) obtain c where "(c, n) \<in> set (callsigns sort_counts s)" and "name = strip c"
    by (auto simp: top_callsigns_def)
  with callsigns_entry [OF assms(1)] have
    "\<exists>c. name = strip c \<and> n = length (filter (\<lambda>r. callsign r = Some c) s) \<and> 0 < n"
    by blast
  moreover have "length (top_callsigns sort_counts s) \<le> 10"
    by (simp add: top_callsigns_def callsigns_def)
  ultimately show ?thesis by simp
qed

theorem top_callsigns_present_only_witness:
  "counts_sorter_ok sort_counts_stable
   \<and> top_callsigns sort_counts_stable [unnamed, sample, other, sample]
       = [(''UAL123'', 2), (''DAL88'', 1)]
   \<and> (\<exists>c. ''UAL123'' = strip c
          \<and> 2 = length (filter (\<lambda>r. callsign r = Some c) [unnamed, sample, other, sample])
          \<and> 0 < (2::nat))"
proof -
  have top: "top_callsigns sort_counts_stable [unnamed, sample, other, sample]
      = [(''UAL123'', 2), (''DAL88'', 1)]"
    by (simp add: unnamed_def other_def sample_def strip_def is_space_def top_callsigns_def
        callsigns_def value_counts_def unique_def sort_counts_stable_def)
  then have "(''UAL123'', 2) \<in> set (top_callsigns sort_counts_stable [unnamed, sample, other, sample])"
    by simp
  from top_callsigns_present_only [OF counts_sorter_ok_stable this] top counts_sorter_ok_stable
  show ?thesis by simp
qed

text \<open>
  C8 as stated fails: a callsign of eight spaces is counted and listed, printed as the empty
  text.
\<close>

theorem blank_callsign_listed:
  "callsign blank = Some ''        '' \<and> strip ''        '' = []
   \<and> callsigns sort_counts_stable [blank] = [(''        '', 1)]
   \<and> top_callsigns sort_counts_stable [blank] = [([], 1)]"
  by (simp add: blank_def sample_def strip_def is_space_def top_callsigns_def callsigns_def
      value_counts_def unique_def sort_counts_stable_def)

section \<open>Empty store\<close>

text \<open>
  C9, as the code has it. The claim: on the empty store every synthesis operation returns an
  empty view-model, the statistics report no data, and no operation raises. Each operation
  tests \<^verbatim>\<open>self.data.empty\<close> first: the four map operations print ``No data to plot'' and
  return \<^verbatim>\<open>None\<close>, the statistics print ``No data to analyze'' and return \<^verbatim>\<open>None\<close>. No
  view-model is built, not even an empty one, and none of them raises; the simple plotter
  does the same.
\<close>

theorem empty_store_no_data:
  "create_static_map [] = NoData ''No data to plot''
   \<and> create_time_animation [] = Inr (NoData ''No data to plot'')
   \<and> create_flight_paths sort_values min_points [] = NoData ''No data to plot''
   \<and> create_heatmap [] = NoData ''No data to plot''
   \<and> generate_statistics sort_counts [] = NoData ''No data to analyze''
   \<and> create_map sort_values [] = NoData ''No data to plot''"
  by (simp add: create_static_map_def create_time_animation_def create_flight_paths_def
      create_heatmap_def generate_statistics_def create_map_def)

text \<open>
  C9 as stated fails: on the empty store no operation returns a value, so none returns the
  view-model without markers, features, paths or points.
\<close>

theorem empty_store_returns_nothing:
  "\<not> returned (create_static_map [])
   \<and> create_static_map [] \<noteq> Done \<lparr>static_location = (NaN, NaN), static_markers = []\<rparr>
   \<and> create_time_animation [] \<noteq> Inr (Done \<lparr>animation_location = (NaN, NaN),
         animation_features = [], animation_period = ''PT30S''\<rparr>)
   \<and> \<not> returned (create_flight_paths sort_values_stable 2 [])
   \<and> create_flight_paths sort_values_stable 2 []
       \<noteq> Done \<lparr>paths_location = (NaN, NaN), paths_drawn = [], paths_created = 0\<rparr>
   \<and> \<not> returned (create_heatmap [])
   \<and> create_heatmap [] \<noteq> Done \<lparr>heat_location = (NaN, NaN), heat_data = []\<rparr>
   \<and> \<not> returned (generate_statistics sort_counts_stable [])"
  by (simp add: create_static_map_def create_time_animation_def create_flight_paths_def
      create_heatmap_def generate_statistics_def)

end
